theory Spec2Isabelle
  imports Main "HOL-Library.Multiset"
begin

section \<open>Data model (internal/models, internal/db)\<close>

text \<open>
  Identifiers are the UUIDs of the Go code, kept opaque. Instants are points on the
  store's clock (TIMESTAMP columns). Amounts are the DECIMAL(10,2) columns, counted in
  hundredths; the services only ever copy them.
\<close>

type_synonym uuid = nat
type_synonym instant = int
type_synonym amount = int

text \<open>models.TimeSlot, relation time_slots.\<close>

record TimeSlot =
  ts_id :: uuid
  ts_resource_id :: uuid
  ts_start_time :: instant
  ts_end_time :: instant
  ts_capacity :: int
  ts_is_available :: bool
  ts_price :: "amount option"
  ts_created_at :: instant

text \<open>models.Booking, relation bookings. The status is a string, as in the Go struct.\<close>

record Booking =
  b_id :: uuid
  b_user_id :: uuid
  b_resource_id :: uuid
  b_time_slot_id :: uuid
  b_status :: string
  b_notes :: string
  b_total_amount :: "amount option"
  b_created_at :: instant
  b_updated_at :: instant

text \<open>
  The store: the four relations of CreateTables. Of users and resources only the primary
  keys matter here (they are the targets of the foreign keys of bookings and time_slots).
\<close>

record DB =
  users :: "uuid list"
  resources :: "uuid list"
  time_slots :: "TimeSlot list"
  bookings :: "Booking list"

text \<open>Errors of the store itself, and the errors the services build around them.\<close>

datatype store_error =
    NoRows
  | UniqueViolation
  | ForeignKeyViolation
  | CheckViolation
  | NumericValueOutOfRange
  | UndefinedColumn
  | UndefinedTable

datatype error =
    NotFoundOrUnavailable store_error  \<comment> \<open>"time slot not found or unavailable: %w"\<close>
  | AlreadyBooked                      \<comment> \<open>"time slot is already booked"\<close>
  | CapacityExceeded                   \<comment> \<open>"time slot is at full capacity"\<close>
  | CreateFailed store_error           \<comment> \<open>"failed to create booking: %w"\<close>
  | NotFound store_error               \<comment> \<open>"booking not found: %w"\<close>
  | ConflictDetected                   \<comment> \<open>"time slot conflicts with existing bookings"\<close>
  | StoreError store_error             \<comment> \<open>an error of the store returned as it is\<close>

section \<open>The store's statements\<close>

text \<open>The filter status IN ('pending', 'confirmed').\<close>

definition is_active :: "string \<Rightarrow> bool" where
  "is_active s \<longleftrightarrow> s = ''pending'' \<or> s = ''confirmed''"

text \<open>SELECT COUNT over bookings WHERE time_slot_id = ? AND status IN ('pending', 'confirmed').\<close>

definition active_for :: "uuid \<Rightarrow> Booking \<Rightarrow> bool" where
  "active_for timeSlotID b \<longleftrightarrow> b_time_slot_id b = timeSlotID \<and> is_active (b_status b)"

definition count_active :: "DB \<Rightarrow> uuid \<Rightarrow> int" where
  "count_active db timeSlotID = int (length (filter (active_for timeSlotID) (bookings db)))"

text \<open>
  INSERT INTO bookings, under the constraints of createBookingsTable: the primary key and
  the three foreign keys.
\<close>

definition insert_booking :: "DB \<Rightarrow> Booking \<Rightarrow> store_error + DB" where
  "insert_booking db b =
     (if b_id b \<in> set (map b_id (bookings db)) then Inl UniqueViolation
      else if b_user_id b \<notin> set (users db)
            \<or> b_resource_id b \<notin> set (resources db)
            \<or> b_time_slot_id b \<notin> set (map ts_id (time_slots db)) then Inl ForeignKeyViolation
      else Inr (db\<lparr>bookings := bookings db @ [b]\<rparr>))"

text \<open>
  The ranges of the column types of createTimeSlotsTable: capacity INTEGER (32 bits,
  signed) and price DECIMAL(10,2) (at most eight digits before the point, so fewer than
  10^10 hundredths in absolute value; NULL is allowed).
\<close>

definition fits_integer :: "int \<Rightarrow> bool" where
  "fits_integer c \<longleftrightarrow> - 2147483648 \<le> c \<and> c \<le> 2147483647"

definition fits_decimal_10_2 :: "amount option \<Rightarrow> bool" where
  "fits_decimal_10_2 p \<longleftrightarrow> (case p of None \<Rightarrow> True | Some a \<Rightarrow> \<bar>a\<bar> < 10000000000)"

text \<open>
  INSERT INTO time_slots, under the column types and the constraints of
  createTimeSlotsTable. A value outside the range of its column type is rejected first,
  when the row is formed; then come the check valid_time_range (end_time > start_time),
  the primary key and the foreign key.
\<close>

definition insert_time_slot :: "DB \<Rightarrow> TimeSlot \<Rightarrow> store_error + DB" where
  "insert_time_slot db t =
     (if \<not> (fits_integer (ts_capacity t) \<and> fits_decimal_10_2 (ts_price t))
      then Inl NumericValueOutOfRange
      else if \<not> ts_end_time t > ts_start_time t then Inl CheckViolation
      else if ts_id t \<in> set (map ts_id (time_slots db)) then Inl UniqueViolation
      else if ts_resource_id t \<notin> set (resources db) then Inl ForeignKeyViolation
      else Inr (db\<lparr>time_slots := time_slots db @ [t]\<rparr>))"

text \<open>UPDATE time_slots SET is_available = ? WHERE id = ?.\<close>

definition set_available :: "uuid \<Rightarrow> bool \<Rightarrow> DB \<Rightarrow> DB" where
  "set_available timeSlotID v db =
     db\<lparr>time_slots := map (\<lambda>t. if ts_id t = timeSlotID then t\<lparr>ts_is_available := v\<rparr> else t)
                           (time_slots db)\<rparr>"

text \<open>UPDATE bookings SET status = 'cancelled', updated_at = NOW() WHERE id = ?.\<close>

definition set_cancelled :: "uuid \<Rightarrow> instant \<Rightarrow> DB \<Rightarrow> DB" where
  "set_cancelled bookingID now db =
     db\<lparr>bookings := map (\<lambda>b. if b_id b = bookingID
                              then b\<lparr>b_status := ''cancelled'', b_updated_at := now\<rparr> else b)
                         (bookings db)\<rparr>"

text \<open>ORDER BY created_at DESC LIMIT 1.\<close>

fun latest :: "Booking list \<Rightarrow> Booking option" where
  "latest [] = None"
| "latest (b # bs) =
     (case latest bs of
        None \<Rightarrow> Some b
      | Some c \<Rightarrow> if b_created_at c > b_created_at b then Some c else Some b)"

text \<open>
  RunInTx: the body runs on the store; when it returns an error the transaction rolls
  back and the store is as before, otherwise its writes are committed.
\<close>

definition RunInTx :: "DB \<Rightarrow> (DB \<Rightarrow> error + DB) \<Rightarrow> error option \<times> DB" where
  "RunInTx db body = (case body db of Inl e \<Rightarrow> (Some e, db) | Inr db' \<Rightarrow> (None, db'))"

section \<open>BookingService\<close>

text \<open>
  The struct that Create inserts (lines 68 to 75). The id and created_at/updated_at of the
  new row are column defaults of the store (gen_random_uuid(), NOW()); they are the
  parameters newID and now.
\<close>

definition new_booking ::
  "uuid \<Rightarrow> uuid \<Rightarrow> uuid \<Rightarrow> string \<Rightarrow> uuid \<Rightarrow> instant \<Rightarrow> TimeSlot \<Rightarrow> Booking" where
  "new_booking userID resourceID timeSlotID notes0 newID now timeSlot =
     \<lparr>b_id = newID, b_user_id = userID, b_resource_id = resourceID,
      b_time_slot_id = timeSlotID, b_status = ''confirmed'',
      b_notes = notes0, b_total_amount = ts_price timeSlot,
      b_created_at = now, b_updated_at = now\<rparr>"

text \<open>The body of the transaction of Create (booking_service.go, lines 25 to 99).\<close>

definition Create_tx ::
  "uuid \<Rightarrow> uuid \<Rightarrow> uuid \<Rightarrow> string \<Rightarrow> uuid \<Rightarrow> instant \<Rightarrow> DB \<Rightarrow> error + DB" where
  "Create_tx userID resourceID timeSlotID notes0 newID now tx =
     (case find (\<lambda>t. ts_id t = timeSlotID \<and> ts_resource_id t = resourceID
                      \<and> ts_is_available t = True) (time_slots tx) of
        None \<Rightarrow> Inl (NotFoundOrUnavailable NoRows)
      | Some timeSlot \<Rightarrow>
          (case find (active_for timeSlotID) (bookings tx) of
             Some existingBooking \<Rightarrow> Inl AlreadyBooked
           | None \<Rightarrow>
               (let bookingCount = count_active tx timeSlotID in
                if bookingCount \<ge> ts_capacity timeSlot then Inl CapacityExceeded
                else
                  (case insert_booking tx
                          (new_booking userID resourceID timeSlotID notes0 newID now timeSlot) of
                     Inl e \<Rightarrow> Inl (CreateFailed e)
                   | Inr tx1 \<Rightarrow>
                       if bookingCount + 1 \<ge> ts_capacity timeSlot
                       then Inr (set_available timeSlotID False tx1)
                       else Inr tx1))))"

text \<open>The re-read after the transaction (lines 105 to 116).\<close>

definition reread :: "DB \<Rightarrow> uuid \<Rightarrow> uuid \<Rightarrow> uuid \<Rightarrow> Booking option" where
  "reread db userID resourceID timeSlotID =
     latest (filter (\<lambda>b. b_user_id b = userID \<and> b_resource_id b = resourceID
                          \<and> b_time_slot_id b = timeSlotID) (bookings db))"

definition Create ::
  "DB \<Rightarrow> uuid \<Rightarrow> uuid \<Rightarrow> uuid \<Rightarrow> string \<Rightarrow> uuid \<Rightarrow> instant \<Rightarrow> (error + Booking) \<times> DB" where
  "Create db userID resourceID timeSlotID notes0 newID now =
     (case RunInTx db (Create_tx userID resourceID timeSlotID notes0 newID now) of
        (Some err, db') \<Rightarrow> (Inl err, db')
      | (None, db') \<Rightarrow>
          (case reread db' userID resourceID timeSlotID of
             None \<Rightarrow> (Inl (StoreError NoRows), db')
           | Some booking \<Rightarrow> (Inr booking, db')))"

text \<open>
  The last block of Cancel's transaction (lines 178 to 205), "re-enable time slot if
  capacity was reached": the slot is read by id; when it is found and the count of active
  bookings is below its capacity, the flag is set. A slot that is not found is skipped.
\<close>

definition reenable :: "uuid \<Rightarrow> DB \<Rightarrow> DB" where
  "reenable timeSlotID tx =
     (case find (\<lambda>t. ts_id t = timeSlotID) (time_slots tx) of
        None \<Rightarrow> tx
      | Some timeSlot \<Rightarrow>
          (let remainingBookings = count_active tx timeSlotID in
           if remainingBookings < ts_capacity timeSlot
           then set_available timeSlotID True tx
           else tx))"

text \<open>The body of the transaction of Cancel (lines 153 to 208).\<close>

definition Cancel_tx :: "uuid \<Rightarrow> uuid \<Rightarrow> instant \<Rightarrow> DB \<Rightarrow> error + DB" where
  "Cancel_tx bookingID userID now tx =
     (case find (\<lambda>b. b_id b = bookingID \<and> b_user_id b = userID) (bookings tx) of
        None \<Rightarrow> Inl (NotFound NoRows)
      | Some booking \<Rightarrow>
          Inr (reenable (b_time_slot_id booking) (set_cancelled bookingID now tx)))"

definition Cancel :: "DB \<Rightarrow> uuid \<Rightarrow> uuid \<Rightarrow> instant \<Rightarrow> error option \<times> DB" where
  "Cancel db bookingID userID now = RunInTx db (Cancel_tx bookingID userID now)"

text \<open>GetByID (lines 137 to 150): the booking with the given id, if there is one.\<close>

definition GetByID :: "DB \<Rightarrow> uuid \<Rightarrow> error + Booking" where
  "GetByID db bookingID =
     (case find (\<lambda>b. b_id b = bookingID) (bookings db) of
        None \<Rightarrow> Inl (StoreError NoRows)
      | Some booking \<Rightarrow> Inr booking)"

text \<open>
  CheckConflicts (lines 211 to 228) selects from bookings with a WHERE clause over the
  columns resource_id, status, start_time and end_time. The store resolves a column name
  against the relation: a row of bookings has a cell for each column of
  createBookingsTable and none for any other name.
\<close>

datatype cell = UuidCell uuid | TextCell string | AmountCell "amount option" | TimeCell instant

definition booking_row :: "Booking \<Rightarrow> string \<Rightarrow> cell option" where
  "booking_row b =
     [''id'' \<mapsto> UuidCell (b_id b),
      ''user_id'' \<mapsto> UuidCell (b_user_id b),
      ''resource_id'' \<mapsto> UuidCell (b_resource_id b),
      ''time_slot_id'' \<mapsto> UuidCell (b_time_slot_id b),
      ''status'' \<mapsto> TextCell (b_status b),
      ''notes'' \<mapsto> TextCell (b_notes b),
      ''total_amount'' \<mapsto> AmountCell (b_total_amount b),
      ''created_at'' \<mapsto> TimeCell (b_created_at b),
      ''updated_at'' \<mapsto> TimeCell (b_updated_at b)]"

text \<open>
  The WHERE clause of CheckConflicts on one row:
  resource_id = ? AND status IN ('pending', 'confirmed')
  AND (start_time <= startTime AND end_time > startTime)
  AND (start_time < endTime AND end_time >= endTime).
\<close>

definition conflict_where ::
  "uuid \<Rightarrow> instant \<Rightarrow> instant \<Rightarrow> (string \<Rightarrow> cell option) \<Rightarrow> store_error + bool" where
  "conflict_where resourceID startTime endTime row =
     (case (row ''resource_id'', row ''status'', row ''start_time'', row ''end_time'') of
        (Some (UuidCell r), Some (TextCell s), Some (TimeCell s2), Some (TimeCell e2)) \<Rightarrow>
          Inr (r = resourceID \<and> is_active s
               \<and> (s2 \<le> startTime \<and> e2 > startTime)
               \<and> (s2 < endTime \<and> e2 \<ge> endTime))
      | _ \<Rightarrow> Inl UndefinedColumn)"

text \<open>
  A scan with a WHERE clause: the statement fails when the clause names a column that
  the relation lacks. On an empty relation the scan of the model returns no rows;
  CheckConflicts gives the same result for no rows and for a failed scan.
\<close>

fun scan_where :: "('r \<Rightarrow> store_error + bool) \<Rightarrow> 'r list \<Rightarrow> store_error + 'r list" where
  "scan_where p [] = Inr []"
| "scan_where p (x # xs) =
     (case p x of
        Inl e \<Rightarrow> Inl e
      | Inr keep \<Rightarrow>
          (case scan_where p xs of
             Inl e \<Rightarrow> Inl e
           | Inr ys \<Rightarrow> Inr (if keep then x # ys else ys)))"

text \<open>
  CheckConflicts returns the conflict error only when the scan succeeded and found rows;
  an error of the scan is dropped and the result is nil (None).
\<close>

definition CheckConflicts :: "DB \<Rightarrow> uuid \<Rightarrow> instant \<Rightarrow> instant \<Rightarrow> error option" where
  "CheckConflicts db resourceID startTime endTime =
     (case scan_where (\<lambda>b. conflict_where resourceID startTime endTime (booking_row b))
             (bookings db) of
        Inr conflicts \<Rightarrow> if length conflicts > 0 then Some ConflictDetected else None
      | Inl err \<Rightarrow> None)"

section \<open>TimeSlotService\<close>

text \<open>
  Names in the statement of GetAvailable. The outer SELECT is built from the model
  (Model(&timeSlots)): bun puts the relation of models.TimeSlot into the FROM clause
  under the alias it derives from the struct name, FROM "time_slots" AS "time_slot". The
  capacity clause is raw SQL text with a correlated subquery, FROM bookings b. A
  qualified column resolves only when its qualifier is a name that a FROM clause in
  scope introduces; a relation that has an alias is known by the alias alone.
\<close>

definition GetAvailable_scope :: "string list" where
  "GetAvailable_scope = [''b'', ''time_slot'']"

text \<open>
  The qualifiers of the capacity clause, in the order of the text:
  b.time_slot_id = time_slots.id AND b.status IN ('pending', 'confirmed').
\<close>

definition capacity_clause_qualifiers :: "string list" where
  "capacity_clause_qualifiers = [''b'', ''time_slots'', ''b'']"

text \<open>
  GetAvailable: the store first resolves the names of the statement and rejects it when
  one does not resolve; the error goes back to the caller. Otherwise the result is the
  scan under the WHERE clauses in the order of the source, with the correlated count of
  active bookings, ORDER BY start_time ASC.
\<close>

definition GetAvailable :: "DB \<Rightarrow> uuid \<Rightarrow> instant \<Rightarrow> instant \<Rightarrow> store_error + TimeSlot list" where
  "GetAvailable db resourceID startDate endDate =
     (if list_all (\<lambda>q. q \<in> set GetAvailable_scope) capacity_clause_qualifiers
      then Inr (sort_key ts_start_time
                  (filter (\<lambda>t. ts_resource_id t = resourceID
                              \<and> ts_is_available t = True
                              \<and> ts_start_time t \<ge> startDate
                              \<and> ts_end_time t \<le> endDate
                              \<and> ts_capacity t - count_active db (ts_id t) > 0)
                     (time_slots db)))
      else Inl UndefinedTable)"

text \<open>
  TimeSlotService.Create: the struct is built and handed to the store's INSERT; the
  error of the store is returned as it is. As for bookings, id and created_at are column
  defaults of the store. The capacity column has a default as well (default:1 in the
  model's tag, DEFAULT 1 in the table): bun leaves a zero-valued field with a default
  out of the INSERT, so a capacity of 0 is stored as 1, and the struct that is returned
  carries the stored value.
\<close>

definition TimeSlot_Create ::
  "DB \<Rightarrow> uuid \<Rightarrow> instant \<Rightarrow> instant \<Rightarrow> int \<Rightarrow> amount option \<Rightarrow> uuid \<Rightarrow> instant
     \<Rightarrow> (error + TimeSlot) \<times> DB" where
  "TimeSlot_Create db resourceID startTime endTime capacity0 price0 newID now =
     (let timeSlot = \<lparr>ts_id = newID, ts_resource_id = resourceID, ts_start_time = startTime,
                       ts_end_time = endTime,
                       ts_capacity = (if capacity0 = 0 then 1 else capacity0),
                       ts_is_available = True, ts_price = price0, ts_created_at = now\<rparr>
      in case insert_time_slot db timeSlot of
           Inl err \<Rightarrow> (Inl (StoreError err), db)
         | Inr db' \<Rightarrow> (Inr timeSlot, db'))"


definition UpdateAvailability :: "DB \<Rightarrow> uuid \<Rightarrow> bool \<Rightarrow> DB" where
  "UpdateAvailability db timeSlotID isAvailable = set_available timeSlotID isAvailable db"

section \<open>Sequences of operations\<close>

datatype op =
    OpCreate uuid uuid uuid string uuid instant
  | OpCancel uuid uuid instant
  | OpCreateTimeSlot uuid instant instant int "amount option" uuid instant
  | OpUpdateAvailability uuid bool

fun apply_op :: "DB \<Rightarrow> op \<Rightarrow> DB" where
  "apply_op db (OpCreate userID resourceID timeSlotID notes0 newID now) =
     snd (Create db userID resourceID timeSlotID notes0 newID now)"
| "apply_op db (OpCancel bookingID userID now) = snd (Cancel db bookingID userID now)"
| "apply_op db (OpCreateTimeSlot resourceID startTime endTime capacity0 price0 newID now) =
     snd (TimeSlot_Create db resourceID startTime endTime capacity0 price0 newID now)"
| "apply_op db (OpUpdateAvailability timeSlotID isAvailable) =
     UpdateAvailability db timeSlotID isAvailable"

definition run :: "DB \<Rightarrow> op list \<Rightarrow> DB" where
  "run db ops = foldl apply_op db ops"

section \<open>Observations used in the statements\<close>

text \<open>The availability flag of the slot with the given id, if the slot exists.\<close>

definition slot_available :: "DB \<Rightarrow> uuid \<Rightarrow> bool option" where
  "slot_available db timeSlotID =
     map_option ts_is_available (find (\<lambda>t. ts_id t = timeSlotID) (time_slots db))"

text \<open>The store with the updated_at column blanked: what is left is every other field.\<close>

definition forget_updated_at :: "DB \<Rightarrow> DB" where
  "forget_updated_at db = db\<lparr>bookings := map (\<lambda>b. b\<lparr>b_updated_at := 0\<rparr>) (bookings db)\<rparr>"

section \<open>The scenario of the README's sample data\<close>

text \<open>
  Three users, one resource, one slot 10:00 to 11:00 (minutes of the day) of capacity 2
  and price 25.50, no booking.
\<close>

definition court_db :: DB where
  "court_db =
     \<lparr>users = [1, 2, 3], resources = [10],
      time_slots = [\<lparr>ts_id = 100, ts_resource_id = 10, ts_start_time = 600,
                     ts_end_time = 660, ts_capacity = 2, ts_is_available = True,
                     ts_price = Some 2550, ts_created_at = 0\<rparr>],
      bookings = []\<rparr>"

text \<open>The same with a slot of capacity 1.\<close>

definition single_db :: DB where
  "single_db =
     \<lparr>users = [1, 2, 3], resources = [10],
      time_slots = [\<lparr>ts_id = 100, ts_resource_id = 10, ts_start_time = 600,
                     ts_end_time = 660, ts_capacity = 1, ts_is_available = True,
                     ts_price = Some 2550, ts_created_at = 0\<rparr>],
      bookings = []\<rparr>"

text \<open>The capacity-1 store after user 1 has booked the slot: the slot is flagged unavailable.\<close>

definition full_db :: DB where
  "full_db =
     \<lparr>users = [1, 2, 3], resources = [10],
      time_slots = [\<lparr>ts_id = 100, ts_resource_id = 10, ts_start_time = 600,
                     ts_end_time = 660, ts_capacity = 1, ts_is_available = False,
                     ts_price = Some 2550, ts_created_at = 0\<rparr>],
      bookings = [\<lparr>b_id = 1000, b_user_id = 1, b_resource_id = 10, b_time_slot_id = 100,
                   b_status = ''confirmed'', b_notes = [], b_total_amount = Some 2550,
                   b_created_at = 1, b_updated_at = 1\<rparr>]\<rparr>"

text \<open>The same store after user 1 has cancelled that booking: the slot is open again.\<close>

definition reopened_db :: DB where
  "reopened_db =
     \<lparr>users = [1, 2, 3], resources = [10],
      time_slots = [\<lparr>ts_id = 100, ts_resource_id = 10, ts_start_time = 600,
                     ts_end_time = 660, ts_capacity = 1, ts_is_available = True,
                     ts_price = Some 2550, ts_created_at = 0\<rparr>],
      bookings = [\<lparr>b_id = 1000, b_user_id = 1, b_resource_id = 10, b_time_slot_id = 100,
                   b_status = ''cancelled'', b_notes = [], b_total_amount = Some 2550,
                   b_created_at = 1, b_updated_at = 2\<rparr>]\<rparr>"

text \<open>The capacity-2 store after user 1 has booked the slot: one of two places is taken.\<close>

definition court_db1 :: DB where
  "court_db1 =
     \<lparr>users = [1, 2, 3], resources = [10],
      time_slots = [\<lparr>ts_id = 100, ts_resource_id = 10, ts_start_time = 600,
                     ts_end_time = 660, ts_capacity = 2, ts_is_available = True,
                     ts_price = Some 2550, ts_created_at = 0\<rparr>],
      bookings = [\<lparr>b_id = 1000, b_user_id = 1, b_resource_id = 10, b_time_slot_id = 100,
                   b_status = ''confirmed'', b_notes = [], b_total_amount = Some 2550,
                   b_created_at = 1, b_updated_at = 1\<rparr>]\<rparr>"

text \<open>
  A store with one active booking on a slot 10:30 to 11:30 of resource 10.
\<close>

definition overlap_db :: DB where
  "overlap_db =
     \<lparr>users = [1, 2, 3], resources = [10],
      time_slots = [\<lparr>ts_id = 101, ts_resource_id = 10, ts_start_time = 630,
                     ts_end_time = 690, ts_capacity = 1, ts_is_available = False,
                     ts_price = None, ts_created_at = 0\<rparr>],
      bookings = [\<lparr>b_id = 1000, b_user_id = 1, b_resource_id = 10, b_time_slot_id = 101,
                   b_status = ''confirmed'', b_notes = [], b_total_amount = None,
                   b_created_at = 1, b_updated_at = 1\<rparr>]\<rparr>"

section \<open>Basic facts about the store's statements\<close>

lemma latest_None_iff: "latest bs = None \<longleftrightarrow> bs = []"
  by (induction bs) (auto split: option.splits)

lemma latest_mem: "latest bs = Some b \<Longrightarrow> b \<in> set bs"
  by (induction bs arbitrary: b) (auto split: option.splits if_splits)

lemma latest_snoc_newest:
  "\<forall>b \<in> set bs. b_created_at b < b_created_at nb \<Longrightarrow> latest (bs @ [nb]) = Some nb"
  by (induction bs) (auto split: option.splits)

lemma bookings_set_available [simp]: "bookings (set_available t v db) = bookings db"
  by (simp add: set_available_def)

lemma count_active_set_available [simp]:
  "count_active (set_available t v db) x = count_active db x"
  by (simp add: count_active_def)

section \<open>Create: what a committed transaction has done\<close>

lemma new_booking_fields [simp]:
  "b_id (new_booking u r t n i now slot) = i"
  "b_user_id (new_booking u r t n i now slot) = u"
  "b_resource_id (new_booking u r t n i now slot) = r"
  "b_time_slot_id (new_booking u r t n i now slot) = t"
  "b_status (new_booking u r t n i now slot) = ''confirmed''"
  "b_notes (new_booking u r t n i now slot) = n"
  "b_total_amount (new_booking u r t n i now slot) = ts_price slot"
  "b_created_at (new_booking u r t n i now slot) = now"
  "b_updated_at (new_booking u r t n i now slot) = now"
  by (simp_all add: new_booking_def)

lemma Create_tx_Inr:
  assumes "Create_tx u r t n i now db = Inr db'"
  obtains slot where
    "find (\<lambda>s. ts_id s = t \<and> ts_resource_id s = r \<and> ts_is_available s = True)
       (time_slots db) = Some slot"
    "find (active_for t) (bookings db) = None"
    "count_active db t < ts_capacity slot"
    "i \<notin> set (map b_id (bookings db))"
    "u \<in> set (users db)" "r \<in> set (resources db)"
    "bookings db' = bookings db @ [new_booking u r t n i now slot]"
    "db' = (if count_active db t + 1 \<ge> ts_capacity slot
            then set_available t False
                   (db\<lparr>bookings := bookings db @ [new_booking u r t n i now slot]\<rparr>)
            else db\<lparr>bookings := bookings db @ [new_booking u r t n i now slot]\<rparr>)"
  using assms
  by (auto simp: Create_tx_def insert_booking_def Let_def split: option.splits if_splits)

lemma Create_tx_reread:
  assumes "Create_tx u r t n i now db = Inr db'"
  shows "reread db' u r t \<noteq> None"
proof -
  from assms obtain slot where "bookings db' = bookings db @ [new_booking u r t n i now slot]"
    by (rule Create_tx_Inr)
  then show ?thesis
    by (simp add: reread_def latest_None_iff)
qed

lemma Create_Inl_iff:
  "fst (Create db u r t n i now) = Inl e \<longleftrightarrow> Create_tx u r t n i now db = Inl e"
  using Create_tx_reread [of u r t n i now db]
  by (auto simp: Create_def RunInTx_def split: sum.splits option.splits)

lemma Create_Inl_unchanged:
  "fst (Create db u r t n i now) = Inl e \<Longrightarrow> snd (Create db u r t n i now) = db"
  using Create_tx_reread [of u r t n i now db]
  by (auto simp: Create_def RunInTx_def split: sum.splits option.splits)

lemma Create_tx_NotFoundOrUnavailable_iff:
  "Create_tx u r t n i now db = Inl (NotFoundOrUnavailable e) \<longleftrightarrow>
     e = NoRows \<and> find (\<lambda>s. ts_id s = t \<and> ts_resource_id s = r \<and> ts_is_available s = True)
                     (time_slots db) = None"
  by (auto simp: Create_tx_def Let_def split: option.splits sum.splits)

section \<open>More on Create\<close>

lemma find_snoc:
  "find P (xs @ [y]) = (case find P xs of None \<Rightarrow> if P y then Some y else None | Some x \<Rightarrow> Some x)"
  by (induction xs) auto

lemma find_active_None_count:
  "find (active_for t) (bookings db) = None \<Longrightarrow> count_active db t = 0"
  by (auto simp: count_active_def find_None_iff filter_empty_conv)

lemma count_active_0_find:
  "count_active db t = 0 \<Longrightarrow> find (active_for t) (bookings db) = None"
  by (auto simp: count_active_def find_None_iff filter_empty_conv)

lemma find_Some_mem: "find P xs = Some x \<Longrightarrow> x \<in> set xs \<and> P x"
  by (induction xs) (auto split: if_splits)

lemma Create_succeeds:
  assumes slot: "find (\<lambda>s. ts_id s = t \<and> ts_resource_id s = r \<and> ts_is_available s = True)
                   (time_slots db) = Some slot"
      and free: "find (active_for t) (bookings db) = None"
      and cap: "0 < ts_capacity slot"
      and fresh: "i \<notin> set (map b_id (bookings db))"
      and user: "u \<in> set (users db)"
      and res: "r \<in> set (resources db)"
  shows "\<exists>b. fst (Create db u r t n i now) = Inr b"
proof -
  from slot have "slot \<in> set (time_slots db)" "ts_id slot = t"
    using find_Some_mem [OF slot] by auto
  then have fk: "t \<in> set (map ts_id (time_slots db))" by auto
  have cnt: "count_active db t = 0" using free by (rule find_active_None_count)
  have "\<exists>db'. Create_tx u r t n i now db = Inr db'"
    using slot free cap fresh user res fk cnt
    by (cases "ts_capacity slot \<le> 1") (simp_all add: Create_tx_def insert_booking_def Let_def)
  then obtain db' where tx: "Create_tx u r t n i now db = Inr db'" ..
  from Create_tx_reread [OF tx] obtain b where "reread db' u r t = Some b" by auto
  with tx show ?thesis by (simp add: Create_def RunInTx_def)
qed

lemma Create_Inr:
  assumes ok: "Create db u r t n i now = (Inr b, db')"
  shows "Create_tx u r t n i now db = Inr db'" "reread db' u r t = Some b"
  using ok by (auto simp: Create_def RunInTx_def split: sum.splits option.splits)

lemma Create_Inr_newest:
  assumes ok: "Create db u r t n i now = (Inr b, db')"
      and clock: "\<forall>x \<in> set (bookings db).
                b_user_id x = u \<and> b_resource_id x = r \<and> b_time_slot_id x = t
                \<longrightarrow> b_created_at x < now"
  obtains slot where
    "find (\<lambda>s. ts_id s = t \<and> ts_resource_id s = r \<and> ts_is_available s = True)
       (time_slots db) = Some slot"
    "b = new_booking u r t n i now slot"
    "find (active_for t) (bookings db) = None"
    "count_active db t < ts_capacity slot"
    "i \<notin> set (map b_id (bookings db))"
    "u \<in> set (users db)" "r \<in> set (resources db)"
    "bookings db' = bookings db @ [b]"
    "db' = (if count_active db t + 1 \<ge> ts_capacity slot
            then set_available t False (db\<lparr>bookings := bookings db @ [b]\<rparr>)
            else db\<lparr>bookings := bookings db @ [b]\<rparr>)"
proof -
  note tx = Create_Inr [OF ok]
  from tx(1) obtain slot where s:
    "find (\<lambda>s. ts_id s = t \<and> ts_resource_id s = r \<and> ts_is_available s = True)
       (time_slots db) = Some slot"
    "find (active_for t) (bookings db) = None"
    "count_active db t < ts_capacity slot"
    "i \<notin> set (map b_id (bookings db))"
    "u \<in> set (users db)" "r \<in> set (resources db)"
    "bookings db' = bookings db @ [new_booking u r t n i now slot]"
    "db' = (if count_active db t + 1 \<ge> ts_capacity slot
            then set_available t False
                   (db\<lparr>bookings := bookings db @ [new_booking u r t n i now slot]\<rparr>)
            else db\<lparr>bookings := bookings db @ [new_booking u r t n i now slot]\<rparr>)"
    by (rule Create_tx_Inr)
  let ?nb = "new_booking u r t n i now slot"
  let ?P = "\<lambda>b. b_user_id b = u \<and> b_resource_id b = r \<and> b_time_slot_id b = t"
  have "\<forall>x \<in> set (filter ?P (bookings db)). b_created_at x < b_created_at ?nb"
    using clock by simp
  then have "latest (filter ?P (bookings db) @ [?nb]) = Some ?nb"
    by (rule latest_snoc_newest)
  then have "reread db' u r t = Some ?nb"
    by (simp add: reread_def s(7))
  with tx(2) have "b = ?nb" by simp
  with s that show thesis by blast
qed

section \<open>Cancel\<close>

lemma find_map_pres:
  "(\<And>x. P (g x) = P x) \<Longrightarrow> find P (map g xs) = map_option g (find P xs)"
  by (induction xs) auto

lemma time_slots_set_cancelled [simp]: "time_slots (set_cancelled bid n db) = time_slots db"
  by (simp add: set_cancelled_def)

lemma set_cancelled_twice [simp]:
  "set_cancelled bid n2 (set_cancelled bid n1 db) = set_cancelled bid n2 db"
  by (simp add: set_cancelled_def)

lemma set_available_twice [simp]:
  "set_available t v (set_available t w db) = set_available t v db"
  by (simp add: set_available_def)

lemma set_cancelled_set_available:
  "set_cancelled bid n (set_available t v db) = set_available t v (set_cancelled bid n db)"
  by (simp add: set_cancelled_def set_available_def)

lemma is_active_cancelled [simp]: "\<not> is_active ''cancelled''"
  by (simp add: is_active_def)

lemma filter_active_cancel_map:
  "filter (active_for t)
     (map (\<lambda>b. if b_id b = bid then b\<lparr>b_status := ''cancelled'', b_updated_at := n\<rparr> else b) xs) =
   filter (\<lambda>b. b_id b \<noteq> bid) (filter (active_for t) xs)"
  by (induction xs) (auto simp: active_for_def)

lemma count_active_set_cancelled:
  "count_active (set_cancelled bid n db) t =
   int (length (filter (\<lambda>b. b_id b \<noteq> bid) (filter (active_for t) (bookings db))))"
  by (simp add: count_active_def set_cancelled_def filter_active_cancel_map)

lemma count_active_set_cancelled_le:
  "count_active (set_cancelled bid n db) t \<le> count_active db t"
proof -
  have "count_active (set_cancelled bid n db) t =
        int (length (filter (\<lambda>b. b_id b \<noteq> bid) (filter (active_for t) (bookings db))))"
    by (rule count_active_set_cancelled)
  also have "\<dots> \<le> int (length (filter (active_for t) (bookings db)))"
    unfolding of_nat_le_iff by (rule length_filter_le)
  finally show ?thesis by (simp add: count_active_def)
qed

lemma find_slot_set_available:
  "find (\<lambda>s. ts_id s = t) (time_slots (set_available t' v db)) =
   map_option (\<lambda>s. if ts_id s = t' then s\<lparr>ts_is_available := v\<rparr> else s)
     (find (\<lambda>s. ts_id s = t) (time_slots db))"
  by (simp add: set_available_def find_map_pres)

lemma reenable_after_recancel:
  "reenable t (set_cancelled bid n2 (reenable t (set_cancelled bid n1 db))) =
   reenable t (set_cancelled bid n2 db)"
proof (cases "find (\<lambda>s. ts_id s = t) (time_slots db)")
  case None
  then show ?thesis by (simp add: reenable_def)
next
  case (Some s)
  show ?thesis
  proof (cases "count_active (set_cancelled bid n2 db) t < ts_capacity s")
    case True
    with Some show ?thesis
      by (simp add: reenable_def find_slot_set_available count_active_set_cancelled
            set_cancelled_set_available)
  next
    case False
    with Some show ?thesis
      by (simp add: reenable_def count_active_set_cancelled)
  qed
qed

lemma bookings_reenable [simp]: "bookings (reenable t db) = bookings db"
  by (simp add: reenable_def Let_def split: option.splits)

lemma find_booking_set_available [simp]:
  "find P (bookings (set_available t v db)) = find P (bookings db)"
  by simp

lemma find_booking_set_cancelled:
  "find (\<lambda>b. b_id b = bid \<and> b_user_id b = u) (bookings (set_cancelled bid' n db)) =
   map_option (\<lambda>b. if b_id b = bid' then b\<lparr>b_status := ''cancelled'', b_updated_at := n\<rparr> else b)
     (find (\<lambda>b. b_id b = bid \<and> b_user_id b = u) (bookings db))"
  by (simp add: set_cancelled_def find_map_pres)

lemma Cancel_found:
  assumes "find (\<lambda>b. b_id b = bid \<and> b_user_id b = u) (bookings db) = Some bk"
  shows "Cancel db bid u now = (None, reenable (b_time_slot_id bk) (set_cancelled bid now db))"
  using assms by (simp add: Cancel_def RunInTx_def Cancel_tx_def)

lemma Cancel_not_found:
  assumes "find (\<lambda>b. b_id b = bid \<and> b_user_id b = u) (bookings db) = None"
  shows "Cancel db bid u now = (Some (NotFound NoRows), db)"
  using assms by (simp add: Cancel_def RunInTx_def Cancel_tx_def)

lemma Cancel_twice:
  assumes f: "find (\<lambda>b. b_id b = bid \<and> b_user_id b = u) (bookings db) = Some bk"
  shows "Cancel (snd (Cancel db bid u n1)) bid u n2 = (None, snd (Cancel db bid u n2))"
proof -
  let ?t = "b_time_slot_id bk"
  let ?db1 = "reenable ?t (set_cancelled bid n1 db)"
  have "find (\<lambda>b. b_id b = bid \<and> b_user_id b = u) (bookings ?db1) =
          Some (bk\<lparr>b_status := ''cancelled'', b_updated_at := n1\<rparr>)"
    using f find_Some_mem [OF f] by (simp add: find_booking_set_cancelled)
  then have "Cancel ?db1 bid u n2 = (None, reenable ?t (set_cancelled bid n2 ?db1))"
    using Cancel_found [of bid u ?db1 _ n2] by simp
  then show ?thesis
    by (simp add: Cancel_found [OF f] reenable_after_recancel)
qed

lemma find_unique_key:
  assumes "distinct (map key xs)" "x \<in> set xs"
  shows "find (\<lambda>y. key y = key x) xs = Some x"
  using assms by (induction xs) (auto simp: image_iff)

lemma map_cancel_fresh:
  "i \<notin> set (map b_id xs) \<Longrightarrow>
   map (\<lambda>b. if b_id b = i then b\<lparr>b_status := ''cancelled'', b_updated_at := n\<rparr> else b) xs = xs"
  by (induction xs) auto

lemma find_fresh_id:
  "i \<notin> set (map b_id xs) \<Longrightarrow> find (\<lambda>b. b_id b = i \<and> Q b) xs = None"
  by (auto simp: find_None_iff)

lemma users_reenable [simp]: "users (reenable t db) = users db"
  by (simp add: reenable_def set_available_def Let_def split: option.splits)

lemma resources_reenable [simp]: "resources (reenable t db) = resources db"
  by (simp add: reenable_def set_available_def Let_def split: option.splits)

lemma Cancel_iff_found:
  "fst (Cancel db bid u now) = None \<longleftrightarrow> (\<exists>b \<in> set (bookings db). b_id b = bid \<and> b_user_id b = u)"
  by (cases "find (\<lambda>b. b_id b = bid \<and> b_user_id b = u) (bookings db)")
     (auto simp: Cancel_found Cancel_not_found find_None_iff dest: find_Some_mem)

lemma Cancel_error_iff:
  "fst (Cancel db bid u now) = Some e \<longleftrightarrow>
     e = NotFound NoRows \<and> \<not> (\<exists>b \<in> set (bookings db). b_id b = bid \<and> b_user_id b = u)"
  by (cases "find (\<lambda>b. b_id b = bid \<and> b_user_id b = u) (bookings db)")
     (auto simp: Cancel_found Cancel_not_found find_None_iff dest: find_Some_mem)

lemma Cancel_bookings:
  assumes "fst (Cancel db bid u now) = None"
  shows "bookings (snd (Cancel db bid u now)) = bookings (set_cancelled bid now db)"
  using assms
  by (cases "find (\<lambda>b. b_id b = bid \<and> b_user_id b = u) (bookings db)")
     (auto simp: Cancel_found Cancel_not_found)

lemma forget_reenable: "forget_updated_at (reenable t db) = reenable t (forget_updated_at db)"
proof -
  have "filter (active_for t) (map (\<lambda>b. b\<lparr>b_updated_at := 0\<rparr>) xs) =
        map (\<lambda>b. b\<lparr>b_updated_at := 0\<rparr>) (filter (active_for t) xs)" for xs
    by (induction xs) (auto simp: active_for_def)
  then have "count_active (forget_updated_at db) t = count_active db t"
    by (simp add: count_active_def forget_updated_at_def)
  then show ?thesis
    by (simp add: reenable_def Let_def forget_updated_at_def set_available_def
          split: option.splits)
qed

lemma forget_set_cancelled:
  "forget_updated_at (set_cancelled bid n1 db) = forget_updated_at (set_cancelled bid n2 db)"
  by (simp add: forget_updated_at_def set_cancelled_def)

lemma forget_Cancel:
  "forget_updated_at (snd (Cancel db bid u n1)) = forget_updated_at (snd (Cancel db bid u n2))"
proof (cases "find (\<lambda>b. b_id b = bid \<and> b_user_id b = u) (bookings db)")
  case None
  then show ?thesis by (simp add: Cancel_not_found)
next
  case (Some bk)
  then show ?thesis
    using forget_set_cancelled [of bid n1 db n2] by (simp add: Cancel_found forget_reenable)
qed

lemma find_id_set_cancelled:
  "find (\<lambda>b. b_id b = bid) (bookings (set_cancelled bid n db)) =
   map_option (\<lambda>b. b\<lparr>b_status := ''cancelled'', b_updated_at := n\<rparr>)
     (find (\<lambda>b. b_id b = bid) (bookings db))"
proof -
  have "find (\<lambda>b. b_id b = bid)
          (map (\<lambda>b. if b_id b = bid then b\<lparr>b_status := ''cancelled'', b_updated_at := n\<rparr> else b) xs) =
        map_option (\<lambda>b. b\<lparr>b_status := ''cancelled'', b_updated_at := n\<rparr>)
          (find (\<lambda>b. b_id b = bid) xs)" for xs
    by (induction xs) auto
  then show ?thesis by (simp add: set_cancelled_def)
qed

lemma GetByID_after_Cancel:
  assumes ex: "\<exists>b \<in> set (bookings db). b_id b = bid \<and> b_user_id b = u"
  shows "\<exists>c. GetByID (snd (Cancel db bid u now)) bid = Inr c \<and> b_status c = ''cancelled''"
proof -
  from ex have ok: "fst (Cancel db bid u now) = None" by (simp add: Cancel_iff_found)
  from ex have "find (\<lambda>b. b_id b = bid) (bookings db) \<noteq> None"
    by (auto simp: find_None_iff)
  then obtain b0 where "find (\<lambda>b. b_id b = bid) (bookings db) = Some b0" by auto
  then show ?thesis
    by (simp add: GetByID_def Cancel_bookings [OF ok] find_id_set_cancelled)
qed

lemma cancel_map_status:
  "\<forall>c \<in> set (map (\<lambda>b. if b_id b = bid
                          then b\<lparr>b_status := ''cancelled'', b_updated_at := now\<rparr> else b)
                    (xs :: Booking list)).
     b_id c = bid \<longrightarrow> b_status c = ''cancelled''"
proof (induction xs)
  case Nil
  show ?case by simp
next
  case (Cons a xs)
  have "b_id (if b_id a = bid then a\<lparr>b_status := ''cancelled'', b_updated_at := now\<rparr> else a) = bid
        \<longrightarrow> b_status (if b_id a = bid then a\<lparr>b_status := ''cancelled'', b_updated_at := now\<rparr>
                       else a) = ''cancelled''"
    by (cases "b_id a = bid") simp_all
  with Cons show ?case by (simp only: list.map set_simps ball_simps)
qed

lemma bookings_set_cancelled:
  "bookings (set_cancelled bid n db) =
   map (\<lambda>b. if b_id b = bid then b\<lparr>b_status := ''cancelled'', b_updated_at := n\<rparr> else b)
     (bookings db)"
  by (simp add: set_cancelled_def)

lemma all_cancelled_after_Cancel:
  assumes ok: "fst (Cancel db bid u now) = None"
  shows "\<forall>c \<in> set (bookings (snd (Cancel db bid u now))).
           b_id c = bid \<longrightarrow> b_status c = ''cancelled''"
  using cancel_map_status [of bid now "bookings db"]
  by (simp only: Cancel_bookings [OF ok] bookings_set_cancelled)

lemma Cancel_twice_found:
  assumes ex: "\<exists>b \<in> set (bookings db). b_id b = bid \<and> b_user_id b = u"
  shows "Cancel (snd (Cancel db bid u n1)) bid u n2 = (None, snd (Cancel db bid u n2))"
proof -
  from ex have "find (\<lambda>b. b_id b = bid \<and> b_user_id b = u) (bookings db) \<noteq> None"
    by (auto simp: find_None_iff)
  then obtain bk where "find (\<lambda>b. b_id b = bid \<and> b_user_id b = u) (bookings db) = Some bk"
    by auto
  then show ?thesis by (rule Cancel_twice)
qed

section \<open>A slot of capacity one\<close>

lemma find_slot_by_key:
  assumes "distinct (map ts_id slots)" "slot \<in> set slots" "ts_id slot = t"
  shows "find (\<lambda>s. ts_id s = t) slots = Some slot"
  using find_unique_key [of ts_id slots slot] assms by simp

lemma slot_available_set_available:
  "slot_available (set_available t v db) t =
   map_option (\<lambda>_. v) (find (\<lambda>s. ts_id s = t) (time_slots db))"
  by (cases "find (\<lambda>s. ts_id s = t) (time_slots db)")
     (auto simp: slot_available_def find_slot_set_available dest: find_Some_mem)

lemma count_active_snoc:
  "count_active (db\<lparr>bookings := bookings db @ [b]\<rparr>) t =
   count_active db t + (if active_for t b then 1 else 0)"
  by (simp add: count_active_def)

lemma set_cancelled_snoc_fresh:
  assumes "i \<notin> set (map b_id (bookings db))" "b_id b = i"
  shows "set_cancelled i n (db\<lparr>bookings := bookings db @ [b]\<rparr>) =
         db\<lparr>bookings := bookings db @ [b\<lparr>b_status := ''cancelled'', b_updated_at := n\<rparr>]\<rparr>"
  using assms map_cancel_fresh [of i "bookings db" n]
  by (simp add: set_cancelled_def)

lemma time_slots_bookings_update [simp]:
  "time_slots (db\<lparr>bookings := bs\<rparr>) = time_slots db"
  by simp

lemma set_available_origin:
  assumes "s2 \<in> set (time_slots (set_available t v db))"
  shows "\<exists>s0 \<in> set (time_slots db). ts_id s0 = ts_id s2 \<and> ts_capacity s0 = ts_capacity s2"
proof -
  from assms obtain s0 where m: "s0 \<in> set (time_slots db)"
    and e: "s2 = (if ts_id s0 = t then s0\<lparr>ts_is_available := v\<rparr> else s0)"
    by (auto simp: set_available_def)
  from e have "ts_id s0 = ts_id s2 \<and> ts_capacity s0 = ts_capacity s2"
    by (cases "ts_id s0 = t") simp_all
  with m show ?thesis by blast
qed

section \<open>One active booking per slot\<close>

lemma snd_Create:
  "snd (Create db u r t n i now) =
     (case Create_tx u r t n i now db of Inl e \<Rightarrow> db | Inr db' \<Rightarrow> db')"
  by (simp add: Create_def RunInTx_def split: sum.splits option.splits)

lemma snd_Cancel:
  "snd (Cancel db bid u now) =
     (case find (\<lambda>b. b_id b = bid \<and> b_user_id b = u) (bookings db) of
        None \<Rightarrow> db
      | Some bk \<Rightarrow> reenable (b_time_slot_id bk) (set_cancelled bid now db))"
  by (simp add: Cancel_found Cancel_not_found split: option.splits)

lemma count_active_reenable [simp]: "count_active (reenable t db) x = count_active db x"
  by (simp add: count_active_def)

lemma bookings_TimeSlot_Create:
  "bookings (snd (TimeSlot_Create db r s e c p i now)) = bookings db"
  by (simp add: TimeSlot_Create_def insert_time_slot_def Let_def)

lemma count_active_Create_le:
  assumes "count_active db x \<le> 1"
  shows "count_active (snd (Create db u r t n i now)) x \<le> 1"
proof (cases "Create_tx u r t n i now db")
  case (Inl e)
  with assms show ?thesis by (simp add: snd_Create)
next
  case (Inr db')
  then obtain slot where free: "find (active_for t) (bookings db) = None"
    and bs: "bookings db' = bookings db @ [new_booking u r t n i now slot]"
    by (rule Create_tx_Inr)
  have c: "count_active db' x = count_active db x + (if x = t then 1 else 0)"
    by (auto simp: count_active_def bs active_for_def is_active_def)
  from free have "count_active db t = 0" by (rule find_active_None_count)
  with c assms Inr show ?thesis by (simp add: snd_Create)
qed

lemma count_active_Cancel_le:
  "count_active (snd (Cancel db bid u now)) x \<le> count_active db x"
  using count_active_set_cancelled_le [of bid now db x]
  by (simp add: snd_Cancel split: option.splits)

lemma count_active_apply_op:
  assumes "count_active db x \<le> 1"
  shows "count_active (apply_op db op) x \<le> 1"
proof (cases op)
  case (OpCreate u r t n i now)
  with assms show ?thesis by (simp add: count_active_Create_le)
next
  case (OpCancel bid u now)
  with assms count_active_Cancel_le [of db bid u now x] show ?thesis by simp
next
  case (OpCreateTimeSlot r s e c p i now)
  with assms show ?thesis by (simp add: count_active_def bookings_TimeSlot_Create)
next
  case (OpUpdateAvailability t v)
  with assms show ?thesis by (simp add: UpdateAvailability_def)
qed

lemma count_active_run:
  "count_active db x \<le> 1 \<Longrightarrow> count_active (run db ops) x \<le> 1"
  unfolding run_def
  by (induction ops arbitrary: db) (simp_all add: count_active_apply_op)

lemma Create_fails_when_booked:
  assumes "0 < count_active db t"
  shows "fst (Create db u r t n i now) = Inl (NotFoundOrUnavailable NoRows)
       \<or> fst (Create db u r t n i now) = Inl AlreadyBooked"
proof -
  from assms have "find (active_for t) (bookings db) \<noteq> None"
    using find_active_None_count [of t db] by auto
  then have "Create_tx u r t n i now db = Inl (NotFoundOrUnavailable NoRows)
           \<or> Create_tx u r t n i now db = Inl AlreadyBooked"
    by (auto simp: Create_tx_def split: option.splits)
  then show ?thesis by (auto simp: Create_Inl_iff)
qed

section \<open>CheckConflicts: the scan\<close>

lemma booking_row_no_window:
  "booking_row b ''start_time'' = None" "booking_row b ''end_time'' = None"
  by (simp_all add: booking_row_def)

lemma conflict_where_undefined:
  "conflict_where r s e (booking_row b) = Inl UndefinedColumn"
  by (simp add: conflict_where_def booking_row_no_window split: option.splits cell.splits)

lemma scan_conflicts_fails:
  "bs \<noteq> [] \<Longrightarrow>
   scan_where (\<lambda>b. conflict_where r s e (booking_row b)) bs = Inl UndefinedColumn"
  by (cases bs) (simp_all add: conflict_where_undefined)

lemma CheckConflicts_never_reports: "CheckConflicts db r s e = None"
  by (cases "bookings db") (simp_all add: CheckConflicts_def conflict_where_undefined)

lemma conflict_where_with_window:
  "conflict_where r s e ((booking_row b)(''start_time'' \<mapsto> TimeCell s2, ''end_time'' \<mapsto> TimeCell e2)) =
     Inr (b_resource_id b = r \<and> is_active (b_status b)
          \<and> (s2 \<le> s \<and> e2 > s) \<and> (s2 < e \<and> e2 \<ge> e))"
  by (simp add: conflict_where_def booking_row_def)

section \<open>GetAvailable: the names of the statement\<close>

lemma capacity_clause_unresolved:
  "\<not> list_all (\<lambda>q. q \<in> set GetAvailable_scope) capacity_clause_qualifiers"
  by (simp add: GetAvailable_scope_def capacity_clause_qualifiers_def)

lemma GetAvailable_fails: "GetAvailable db r sd ed = Inl UndefinedTable"
  by (simp add: GetAvailable_def capacity_clause_unresolved)

section \<open>Evaluation of the operations on concrete stores\<close>

lemmas eval_defs = Create_def RunInTx_def Create_tx_def active_for_def count_active_def
  insert_booking_def new_booking_def reread_def set_available_def is_active_def
  Cancel_def Cancel_tx_def reenable_def set_cancelled_def

lemmas run_defs = run_def UpdateAvailability_def TimeSlot_Create_def insert_time_slot_def

section \<open>Claims\<close>

text \<open>
  C6. Create fails with the error "time slot not found or unavailable" exactly when the
  store has no time slot with the given id, the given resource id and the availability
  flag true. Whenever Create fails, with this or any other error, the store is left as it
  was: no booking has been inserted and no time slot has been changed.
\<close>

theorem Create_NotFoundOrUnavailable_iff_rollback:
  "((\<exists>e. fst (Create db u r t n i now) = Inl (NotFoundOrUnavailable e)) \<longleftrightarrow>
      \<not> (\<exists>s \<in> set (time_slots db).
             ts_id s = t \<and> ts_resource_id s = r \<and> ts_is_available s = True))
   \<and> (\<forall>err. fst (Create db u r t n i now) = Inl err \<longrightarrow>
             snd (Create db u r t n i now) = db)"
  by (auto simp: Create_Inl_iff Create_tx_NotFoundOrUnavailable_iff find_None_iff
        Create_Inl_unchanged)

theorem Create_NotFoundOrUnavailable_iff_rollback_witness:
  "(\<exists>e. fst (Create full_db 2 10 100 [] 1001 2) = Inl (NotFoundOrUnavailable e))
   \<and> snd (Create full_db 2 10 100 [] 1001 2) = full_db"
proof -
  have none: "\<not> (\<exists>s \<in> set (time_slots full_db).
                     ts_id s = 100 \<and> ts_resource_id s = 10 \<and> ts_is_available s = True)"
    by (simp add: full_db_def)
  from Create_NotFoundOrUnavailable_iff_rollback [of full_db 2 10 100 "[]" 1001 2] none
  show ?thesis by blast
qed

text \<open>
  C7, on the code. User 1 has booked slot 100 and cancelled the booking (row 1000,
  created at instant 1). Create by the same user for the same resource and slot, in a
  transaction whose NOW() is again 1, succeeds and inserts row 1001 with status
  confirmed, but the booking it returns is row 1000, with status cancelled: the re-read
  selects by user, resource and slot and takes the latest created_at, not the row that
  was inserted. The same happens when the clock reads 0, earlier than the old row.
\<close>

theorem Create_returns_older_cancelled_booking:
  "Create reopened_db 1 10 100 [] 1001 1 =
     (Inr \<lparr>b_id = 1000, b_user_id = 1, b_resource_id = 10, b_time_slot_id = 100,
           b_status = ''cancelled'', b_notes = [], b_total_amount = Some 2550,
           b_created_at = 1, b_updated_at = 2\<rparr>,
      snd (Create reopened_db 1 10 100 [] 1001 1))
   \<and> GetByID (snd (Create reopened_db 1 10 100 [] 1001 1)) 1001 =
       Inr \<lparr>b_id = 1001, b_user_id = 1, b_resource_id = 10, b_time_slot_id = 100,
             b_status = ''confirmed'', b_notes = [], b_total_amount = Some 2550,
             b_created_at = 1, b_updated_at = 1\<rparr>
   \<and> fst (Create reopened_db 1 10 100 [] 1001 0) =
       Inr \<lparr>b_id = 1000, b_user_id = 1, b_resource_id = 10, b_time_slot_id = 100,
             b_status = ''cancelled'', b_notes = [], b_total_amount = Some 2550,
             b_created_at = 1, b_updated_at = 2\<rparr>"
  by (simp add: eval_defs GetByID_def reopened_db_def)

text \<open>
  C9. Cancel fails with the error "booking not found" exactly when the store has no
  booking with the given id and user id; otherwise it succeeds, whatever the status of
  the booking was. After a success the booking read by id has status cancelled, as has
  every row with that id. Cancelling once more succeeds and gives the store that one
  cancellation at the later time gives: compared with the store after the first
  cancellation, nothing differs but the updated_at column.
\<close>

theorem Cancel_NotFound_iff_and_idempotent:
  "((\<exists>e. fst (Cancel db bid u now) = Some (NotFound e)) \<longleftrightarrow>
      \<not> (\<exists>b \<in> set (bookings db). b_id b = bid \<and> b_user_id b = u))
   \<and> (fst (Cancel db bid u now) = None \<longleftrightarrow>
        (\<exists>b \<in> set (bookings db). b_id b = bid \<and> b_user_id b = u))
   \<and> ((\<exists>b \<in> set (bookings db). b_id b = bid \<and> b_user_id b = u) \<longrightarrow>
        (\<exists>c. GetByID (snd (Cancel db bid u now)) bid = Inr c \<and> b_status c = ''cancelled'')
      \<and> (\<forall>c \<in> set (bookings (snd (Cancel db bid u now))).
            b_id c = bid \<longrightarrow> b_status c = ''cancelled'')
      \<and> Cancel (snd (Cancel db bid u now)) bid u now2 = (None, snd (Cancel db bid u now2))
      \<and> forget_updated_at (snd (Cancel (snd (Cancel db bid u now)) bid u now2)) =
          forget_updated_at (snd (Cancel db bid u now)))"
proof (intro conjI impI)
  show "(\<exists>e. fst (Cancel db bid u now) = Some (NotFound e)) \<longleftrightarrow>
          \<not> (\<exists>b \<in> set (bookings db). b_id b = bid \<and> b_user_id b = u)"
    by (simp add: Cancel_error_iff)
  show "fst (Cancel db bid u now) = None \<longleftrightarrow>
          (\<exists>b \<in> set (bookings db). b_id b = bid \<and> b_user_id b = u)"
    by (rule Cancel_iff_found)
next
  assume ex: "\<exists>b \<in> set (bookings db). b_id b = bid \<and> b_user_id b = u"
  then have ok: "fst (Cancel db bid u now) = None" by (simp only: Cancel_iff_found)
  from ex show "\<exists>c. GetByID (snd (Cancel db bid u now)) bid = Inr c \<and> b_status c = ''cancelled''"
    by (rule GetByID_after_Cancel)
  from ok show "\<forall>c \<in> set (bookings (snd (Cancel db bid u now))).
          b_id c = bid \<longrightarrow> b_status c = ''cancelled''"
    by (rule all_cancelled_after_Cancel)
  from ex show twice:
    "Cancel (snd (Cancel db bid u now)) bid u now2 = (None, snd (Cancel db bid u now2))"
    by (rule Cancel_twice_found)
  show "forget_updated_at (snd (Cancel (snd (Cancel db bid u now)) bid u now2)) =
          forget_updated_at (snd (Cancel db bid u now))"
    by (simp only: twice snd_conv forget_Cancel [of db bid u now2 now])
qed

theorem Cancel_NotFound_iff_and_idempotent_witness:
  "(\<exists>b \<in> set (bookings full_db). b_id b = 1000 \<and> b_user_id b = 1)
   \<and> fst (Cancel full_db 1000 1 2) = None
   \<and> (\<exists>c. GetByID (snd (Cancel full_db 1000 1 2)) 1000 = Inr c \<and> b_status c = ''cancelled'')
   \<and> Cancel (snd (Cancel full_db 1000 1 2)) 1000 1 7 = (None, snd (Cancel full_db 1000 1 7))
   \<and> \<not> (\<exists>b \<in> set (bookings full_db). b_id b = 1000 \<and> b_user_id b = 2)
   \<and> (\<exists>e. fst (Cancel full_db 1000 2 2) = Some (NotFound e))"
proof -
  have own: "\<exists>b \<in> set (bookings full_db). b_id b = 1000 \<and> b_user_id b = 1"
    by (simp add: full_db_def)
  have other: "\<not> (\<exists>b \<in> set (bookings full_db). b_id b = 1000 \<and> b_user_id b = 2)"
    by (simp add: full_db_def)
  from Cancel_NotFound_iff_and_idempotent [of full_db 1000 1 2 7] own
       Cancel_NotFound_iff_and_idempotent [of full_db 1000 2 2 7] other
  show ?thesis by blast
qed

text \<open>
  C5. Take a time slot of capacity 1 (ids are the primary key of time_slots) and a Create
  on it that succeeds, inserting the booking with id i. Then the slot's availability
  flag is false afterwards. Cancelling booking i with the same user id succeeds, leaves
  that booking with status cancelled, leaves no active booking on the slot, and sets the
  flag back to true; a subsequent Create on the slot succeeds for every user of the
  store (and every unused booking id).
\<close>

theorem Cancel_reopens_slot_of_capacity_one:
  assumes pk: "distinct (map ts_id (time_slots db))"
      and slot: "slot \<in> set (time_slots db)" "ts_id slot = t" "ts_capacity slot = 1"
      and created: "Create db u r t n i now = (Inr b, db1)"
  shows "slot_available db1 t = Some False
       \<and> fst (Cancel db1 i u now2) = None
       \<and> (\<exists>c. GetByID (snd (Cancel db1 i u now2)) i = Inr c
               \<and> b_status c = ''cancelled'')
       \<and> count_active (snd (Cancel db1 i u now2)) t = 0
       \<and> slot_available (snd (Cancel db1 i u now2)) t = Some True
       \<and> (\<forall>u' n' i' now3.
            u' \<in> set (users (snd (Cancel db1 i u now2)))
            \<and> i' \<notin> set (map b_id (bookings (snd (Cancel db1 i u now2))))
            \<longrightarrow> (\<exists>b'. fst (Create (snd (Cancel db1 i u now2)) u' r t n' i' now3) = Inr b'))"
proof -
  from created have "Create_tx u r t n i now db = Inr db1" by (rule Create_Inr)
  then obtain slot' where s:
    "find (\<lambda>s. ts_id s = t \<and> ts_resource_id s = r \<and> ts_is_available s = True)
       (time_slots db) = Some slot'"
    "find (active_for t) (bookings db) = None"
    "i \<notin> set (map b_id (bookings db))"
    "r \<in> set (resources db)"
    "db1 = (if count_active db t + 1 \<ge> ts_capacity slot'
            then set_available t False
                   (db\<lparr>bookings := bookings db @ [new_booking u r t n i now slot']\<rparr>)
            else db\<lparr>bookings := bookings db @ [new_booking u r t n i now slot']\<rparr>)"
    by (rule Create_tx_Inr)
  define nb where "nb = new_booking u r t n i now slot'"
  have byid: "find (\<lambda>s. ts_id s = t) (time_slots db) = Some slot"
    using pk slot(1,2) by (rule find_slot_by_key)
  from find_Some_mem [OF s(1)] have "slot' \<in> set (time_slots db)" "ts_id slot' = t"
    "ts_resource_id slot' = r" by auto
  with pk have "find (\<lambda>s. ts_id s = t) (time_slots db) = Some slot'"
    by (simp add: find_slot_by_key)
  with byid have same: "slot' = slot" by simp
  have res: "ts_resource_id slot = r" using \<open>ts_resource_id slot' = r\<close> same by simp
  have cnt: "count_active db t = 0" using s(2) by (rule find_active_None_count)
  have bid: "b_id nb = i" and bu: "b_user_id nb = u" and bt: "b_time_slot_id nb = t"
    by (simp_all add: nb_def)
  let ?X = "db\<lparr>bookings := bookings db @ [nb]\<rparr>"
  have db1: "db1 = set_available t False ?X"
    using s(5) cnt same slot(3) by (simp add: nb_def)
  let ?c = "nb\<lparr>b_status := ''cancelled'', b_updated_at := now2\<rparr>"
  let ?Y = "db\<lparr>bookings := bookings db @ [?c]\<rparr>"
  have found: "find (\<lambda>x. b_id x = i \<and> b_user_id x = u) (bookings db1) = Some nb"
    using find_fresh_id [OF s(3), of "\<lambda>x. b_user_id x = u"] bid bu
    by (simp add: db1 find_snoc)
  have sc: "set_cancelled i now2 db1 = set_available t False ?Y"
    using set_cancelled_snoc_fresh [OF s(3) bid, of now2]
    by (simp add: db1 set_cancelled_set_available)
  have cY: "count_active ?Y t = 0"
    using cnt by (simp add: count_active_snoc active_for_def)
  have fY: "find (\<lambda>s. ts_id s = t) (time_slots (set_available t False ?Y)) =
              Some (slot\<lparr>ts_is_available := False\<rparr>)"
    using byid slot(2) by (simp add: find_slot_set_available)
  have re: "reenable t (set_available t False ?Y) = set_available t True ?Y"
    using fY cY slot(3) by (simp add: reenable_def)
  have cancel: "Cancel db1 i u now2 = (None, set_available t True ?Y)"
    using Cancel_found [OF found, of now2] by (simp add: bid bt sc re)
  let ?db2 = "set_available t True ?Y"
  have flag1: "slot_available db1 t = Some False"
    using byid by (simp add: db1 slot_available_set_available)
  have flag2: "slot_available ?db2 t = Some True"
    using byid by (simp add: slot_available_set_available)
  have get: "GetByID ?db2 i = Inr ?c"
    using find_fresh_id [OF s(3), of "\<lambda>x. True"] bid
    by (simp add: GetByID_def find_snoc)
  have c2: "count_active ?db2 t = 0" using cY by simp
  have again: "\<exists>b'. fst (Create ?db2 u' r t n' i' now3) = Inr b'"
    if u': "u' \<in> set (users ?db2)" and i': "i' \<notin> set (map b_id (bookings ?db2))"
    for u' n' i' now3
  proof -
    let ?P = "\<lambda>s. ts_id s = t \<and> ts_resource_id s = r \<and> ts_is_available s = True"
    have "slot\<lparr>ts_is_available := True\<rparr> \<in> set (time_slots ?db2)"
      using slot(1,2) by (auto simp: set_available_def image_iff intro!: bexI [of _ slot])
    moreover have "?P (slot\<lparr>ts_is_available := True\<rparr>)" using slot(2) res by simp
    ultimately have "\<exists>x. x \<in> set (time_slots ?db2) \<and> ?P x" by blast
    then have "find ?P (time_slots ?db2) \<noteq> None"
      by (simp only: find_None_iff not_not)
    then obtain s2 where f2: "find ?P (time_slots ?db2) = Some s2" by auto
    from find_Some_mem [OF f2] have "s2 \<in> set (time_slots ?db2)" "ts_id s2 = t" by auto
    then obtain s0 where "s0 \<in> set (time_slots db)" "ts_id s0 = t"
      "ts_capacity s2 = ts_capacity s0"
      using set_available_origin [of s2 t True ?Y] by auto
    moreover from this pk have "find (\<lambda>s. ts_id s = t) (time_slots db) = Some s0"
      by (simp add: find_slot_by_key)
    ultimately have cap2: "0 < ts_capacity s2" using byid slot(3) by simp
    have free: "find (active_for t) (bookings ?db2) = None"
      using c2 by (rule count_active_0_find)
    have r2: "r \<in> set (resources ?db2)" using s(4) by (simp add: set_available_def)
    from f2 free cap2 i' u' r2 show ?thesis by (rule Create_succeeds)
  qed
  show ?thesis
    unfolding cancel snd_conv fst_conv
    using flag1 flag2 get c2 again by simp
qed

theorem Cancel_reopens_slot_of_capacity_one_witness:
  "Create single_db 1 10 100 [] 1000 1 = (Inr (hd (bookings full_db)), full_db)
   \<and> slot_available full_db 100 = Some False
   \<and> fst (Cancel full_db 1000 1 2) = None
   \<and> count_active (snd (Cancel full_db 1000 1 2)) 100 = 0
   \<and> slot_available (snd (Cancel full_db 1000 1 2)) 100 = Some True
   \<and> (\<exists>b'. fst (Create (snd (Cancel full_db 1000 1 2)) 2 10 100 [] 1001 3) = Inr b')"
proof -
  have pk: "distinct (map ts_id (time_slots single_db))"
    by (simp add: single_db_def)
  have slot: "hd (time_slots single_db) \<in> set (time_slots single_db)"
    "ts_id (hd (time_slots single_db)) = 100" "ts_capacity (hd (time_slots single_db)) = 1"
    by (simp_all add: single_db_def)
  have created: "Create single_db 1 10 100 [] 1000 1 = (Inr (hd (bookings full_db)), full_db)"
    by (simp add: eval_defs single_db_def full_db_def)
  have db2: "snd (Cancel full_db 1000 1 2) = reopened_db"
    by (simp add: eval_defs full_db_def reopened_db_def)
  have user: "2 \<in> set (users reopened_db)"
    and fresh: "1001 \<notin> set (map b_id (bookings reopened_db))"
    by (simp_all add: reopened_db_def)
  from Cancel_reopens_slot_of_capacity_one [OF pk slot created, of 2]
  show ?thesis
    unfolding db2 using created user fresh by blast
qed

text \<open>
  C8, on the code. The sample store has one slot of resource 10 within the day, flagged
  available, with no active booking and capacity 2, so the claim's answer for resource 10
  and the whole day is that slot; GetAvailable returns an error instead. For resource 11,
  which has no slot, the claim's answer is the empty sequence; GetAvailable returns the
  same error. The capacity clause names the relation as time_slots, which the statement
  knows only under its alias.
\<close>

theorem GetAvailable_fails_on_sample_store:
  "(\<exists>t. t \<in> set (time_slots court_db) \<and> ts_resource_id t = 10
        \<and> 0 \<le> ts_start_time t \<and> ts_end_time t \<le> 1440 \<and> ts_is_available t
        \<and> int (length (filter (\<lambda>b. b_time_slot_id b = ts_id t
                                     \<and> (b_status b = ''pending'' \<or> b_status b = ''confirmed''))
                             (bookings court_db))) < ts_capacity t)
   \<and> GetAvailable court_db 10 0 1440 = Inl UndefinedTable
   \<and> \<not> (\<exists>t. t \<in> set (time_slots court_db) \<and> ts_resource_id t = 11)
   \<and> GetAvailable court_db 11 0 1440 = Inl UndefinedTable"
proof -
  have "hd (time_slots court_db) \<in> set (time_slots court_db)"
    "ts_resource_id (hd (time_slots court_db)) = 10"
    "0 \<le> ts_start_time (hd (time_slots court_db))"
    "ts_end_time (hd (time_slots court_db)) \<le> 1440"
    "ts_is_available (hd (time_slots court_db))"
    "int (length (filter (\<lambda>b. b_time_slot_id b = ts_id (hd (time_slots court_db))
                               \<and> (b_status b = ''pending'' \<or> b_status b = ''confirmed''))
                       (bookings court_db))) < ts_capacity (hd (time_slots court_db))"
    by (simp_all add: court_db_def)
  then have "\<exists>t. t \<in> set (time_slots court_db) \<and> ts_resource_id t = 10
        \<and> 0 \<le> ts_start_time t \<and> ts_end_time t \<le> 1440 \<and> ts_is_available t
        \<and> int (length (filter (\<lambda>b. b_time_slot_id b = ts_id t
                                     \<and> (b_status b = ''pending'' \<or> b_status b = ''confirmed''))
                             (bookings court_db))) < ts_capacity t"
    by blast
  moreover have "\<not> (\<exists>t. t \<in> set (time_slots court_db) \<and> ts_resource_id t = 11)"
    by (simp add: court_db_def)
  ultimately show ?thesis by (simp add: GetAvailable_fails)
qed

text \<open>
  C2. Starting from a store without bookings, after any sequence of operations (Create,
  Cancel, and also the creation of time slots and the setting of the availability flag)
  every time slot has at most one active booking. Create on a slot that has an active
  booking fails, whatever the capacity of the slot, with "time slot is already booked"
  (or with "time slot not found or unavailable" when the first select finds no slot),
  and leaves the store unchanged.
\<close>

theorem at_most_one_active_booking_per_slot:
  "(bookings db0 = [] \<longrightarrow> count_active (run db0 ops) t \<le> 1)
   \<and> (0 < count_active db t \<longrightarrow>
        (fst (Create db u r t n i now) = Inl (NotFoundOrUnavailable NoRows)
         \<or> fst (Create db u r t n i now) = Inl AlreadyBooked)
        \<and> snd (Create db u r t n i now) = db)"
proof (intro conjI impI)
  assume "bookings db0 = []"
  then have "count_active db0 t \<le> 1" by (simp add: count_active_def)
  then show "count_active (run db0 ops) t \<le> 1" by (rule count_active_run)
next
  assume a: "0 < count_active db t"
  then show f: "fst (Create db u r t n i now) = Inl (NotFoundOrUnavailable NoRows)
         \<or> fst (Create db u r t n i now) = Inl AlreadyBooked"
    by (rule Create_fails_when_booked)
  then show "snd (Create db u r t n i now) = db"
    using Create_Inl_unchanged by blast
qed

theorem at_most_one_active_booking_per_slot_witness:
  "bookings court_db = []
   \<and> run court_db [OpCreate 1 10 100 [] 1000 1, OpCreate 2 10 100 [] 1001 2] = court_db1
   \<and> count_active court_db1 100 = 1
   \<and> Create court_db1 2 10 100 [] 1001 2 = (Inl AlreadyBooked, court_db1)"
proof -
  have e: "bookings court_db = []" by (simp add: court_db_def)
  have r: "run court_db [OpCreate 1 10 100 [] 1000 1, OpCreate 2 10 100 [] 1001 2] = court_db1"
    by (simp add: run_defs eval_defs court_db_def court_db1_def)
  have c: "count_active court_db1 100 = 1"
    by (simp add: count_active_def active_for_def is_active_def court_db1_def)
  have nf: "fst (Create court_db1 2 10 100 [] 1001 2) \<noteq> Inl (NotFoundOrUnavailable NoRows)"
    by (simp add: eval_defs court_db1_def)
  from at_most_one_active_booking_per_slot
         [of court_db "[OpCreate 1 10 100 [] 1000 1, OpCreate 2 10 100 [] 1001 2]" 100
             court_db1 2 10 "[]" 1001 2] e c nf
  have "fst (Create court_db1 2 10 100 [] 1001 2) = Inl AlreadyBooked"
       "snd (Create court_db1 2 10 100 [] 1001 2) = court_db1"
    by simp_all
  then have "Create court_db1 2 10 100 [] 1001 2 = (Inl AlreadyBooked, court_db1)"
    by (simp add: prod_eq_iff)
  with e r c show ?thesis by simp
qed

text \<open>
  C1, on the code. On the sample slot of capacity 2, Create by user 1 succeeds and leaves
  the slot flagged available with one active booking out of two; the next Create, by
  user 2, is refused with "time slot is already booked" and changes nothing. The
  sequence of three Create calls of the claim therefore has one success, not two, and
  the refusals are not the capacity error.
\<close>

theorem Create_rejects_second_booking_at_capacity_two:
  "Create court_db 1 10 100 [] 1000 1 = (Inr (hd (bookings court_db1)), court_db1)
   \<and> slot_available court_db1 100 = Some True
   \<and> map ts_capacity (time_slots court_db1) = [2]
   \<and> count_active court_db1 100 = 1
   \<and> 2 \<in> set (users court_db1)
   \<and> Create court_db1 2 10 100 [] 1001 2 = (Inl AlreadyBooked, court_db1)"
  by (simp add: eval_defs slot_available_def court_db_def court_db1_def)

text \<open>
  C4, on the code. The store holds an active booking of resource 10 on a slot 10:30 to
  11:30, which overlaps the window 10:00 to 11:00 in the half-open sense; CheckConflicts
  for resource 10 and that window reports no conflict. The scan fails, because bookings
  has no start_time and end_time column, and CheckConflicts drops the error. The WHERE
  clause itself, evaluated on that row joined with the window of its slot, is false as
  well: it asks for a booking that covers the whole requested window.
\<close>

theorem CheckConflicts_misses_overlap:
  "(\<exists>b. b \<in> set (bookings overlap_db) \<and> b_resource_id b = 10 \<and> is_active (b_status b)
        \<and> (\<exists>t. t \<in> set (time_slots overlap_db) \<and> ts_id t = b_time_slot_id b
                \<and> 600 < ts_end_time t \<and> ts_start_time t < 660))
   \<and> CheckConflicts overlap_db 10 600 660 = None
   \<and> scan_where (\<lambda>b. conflict_where 10 600 660 (booking_row b)) (bookings overlap_db) =
       Inl UndefinedColumn
   \<and> conflict_where 10 600 660
        ((booking_row (hd (bookings overlap_db)))
           (''start_time'' \<mapsto> TimeCell 630, ''end_time'' \<mapsto> TimeCell 690)) = Inr False"
proof -
  have "hd (bookings overlap_db) \<in> set (bookings overlap_db)"
    "b_resource_id (hd (bookings overlap_db)) = 10"
    "is_active (b_status (hd (bookings overlap_db)))"
    "hd (time_slots overlap_db) \<in> set (time_slots overlap_db)"
    "ts_id (hd (time_slots overlap_db)) = b_time_slot_id (hd (bookings overlap_db))"
    "600 < ts_end_time (hd (time_slots overlap_db))"
    "ts_start_time (hd (time_slots overlap_db)) < 660"
    by (simp_all add: overlap_db_def is_active_def)
  then have "\<exists>b. b \<in> set (bookings overlap_db) \<and> b_resource_id b = 10 \<and> is_active (b_status b)
        \<and> (\<exists>t. t \<in> set (time_slots overlap_db) \<and> ts_id t = b_time_slot_id b
                \<and> 600 < ts_end_time t \<and> ts_start_time t < 660)"
    by blast
  moreover have "bookings overlap_db \<noteq> []" by (simp add: overlap_db_def)
  then have "scan_where (\<lambda>b. conflict_where 10 600 660 (booking_row b)) (bookings overlap_db) =
       Inl UndefinedColumn" by (rule scan_conflicts_fails)
  moreover have "conflict_where 10 600 660
        ((booking_row (hd (bookings overlap_db)))
           (''start_time'' \<mapsto> TimeCell 630, ''end_time'' \<mapsto> TimeCell 690)) = Inr False"
    by (simp add: conflict_where_with_window)
  ultimately show ?thesis by (simp add: CheckConflicts_never_reports)
qed




end
